theory Spec2Isabelle
  imports Complex_Main
begin

section \<open>The animation module of csromer: data model\<close>

text \<open>
  The module \<^verbatim>\<open>csromer/animations/animations.py\<close> computes the axes of an image from
  four header values, fixes one colour scale for a cube of frames, and drives a
  per-frame update of a plot. The classes are modelled as records, their methods as
  functions that take the record, and every Python exception as a value of
  \<open>py_error\<close>.

  Numbers: the Python floats of the header and of the frames are modelled as the real
  numbers they denote, and every arithmetic operation as the exact one (no rounding,
  no NaN, no infinity). \<open>np.pi\<close> is the constant \<open>pi\<close>. The axis values, which the
  module only formats, are doubles with their sign of zero and their non-finite values
  (\<open>pyfloat\<close>).
\<close>

datatype py_error =
    KeyError string
  | IndexError
  | ValueError
  | ZeroDivisionError

text \<open>Sequencing of fallible steps: the first exception ends the computation.\<close>

definition bindE :: "py_error + 'a \<Rightarrow> ('a \<Rightarrow> py_error + 'b) \<Rightarrow> py_error + 'b" where
  "bindE m f = (case m of Inl e \<Rightarrow> Inl e | Inr v \<Rightarrow> f v)"

text \<open>
  The header is a Python dict from key names to numbers; \<open>h[k]\<close> raises
  \<open>KeyError\<close> on a missing key.
\<close>

type_synonym header = "string \<rightharpoonup> real"

definition getitem :: "header \<Rightarrow> string \<Rightarrow> py_error + real" where
  "getitem h k = (case h k of None \<Rightarrow> Inl (KeyError k) | Some v \<Rightarrow> Inr v)"

text \<open>
  A frame is a two-dimensional numpy array: its shape and its elements in row-major
  order. A cube is the sequence of its frames (\<open>cube[i]\<close> is a frame).
\<close>

record frame =
  shape :: "nat \<times> nat"
  flat :: "real list"

definition frame_ok :: "frame \<Rightarrow> bool" where
  "frame_ok f = (length (flat f) = fst (shape f) * snd (shape f))"

type_synonym cube = "frame list"

text \<open>
  A double as a format specification sees it: \<open>Num r\<close> is the finite double of value
  \<open>r\<close> (\<open>Num 0\<close> is \<open>+0.0\<close>), \<open>NegZero\<close> is \<open>-0.0\<close>, and there are the two infinities
  and nan.
\<close>

datatype pyfloat = Num real | NegZero | PosInf | NegInf | NaN

fun is_finite :: "pyfloat \<Rightarrow> bool" where
  "is_finite (Num r) = True"
| "is_finite NegZero = True"
| "is_finite PosInf = False"
| "is_finite NegInf = False"
| "is_finite NaN = False"

fun sign_bit :: "pyfloat \<Rightarrow> bool" where
  "sign_bit (Num r) = (r < 0)"
| "sign_bit NegZero = True"
| "sign_bit PosInf = False"
| "sign_bit NegInf = True"
| "sign_bit NaN = False"

fun magnitude :: "pyfloat \<Rightarrow> real" where
  "magnitude (Num r) = \<bar>r\<bar>"
| "magnitude NegZero = 0"
| "magnitude PosInf = 0"
| "magnitude NegInf = 0"
| "magnitude NaN = 0"

section \<open>ColormapManager\<close>




section \<open>DataConfig\<close>

record DataConfig =
  dc_data :: frame
  dc_header :: header
  dc_units :: string
  dc_u_factor :: real

definition np_pi :: real where
  "np_pi = pi"

text \<open>\<open>_set_units_factor\<close> reads \<open>self.units\<close> only; it takes the units label.\<close>

definition set_units_factor :: "string \<Rightarrow> real" where
  "set_units_factor u =
     (if u = ''arcmin'' then 60
      else if u = ''arcsec'' then 3600
      else if u = ''rad'' then np_pi / 180
      else 1)"

text \<open>
  \<open>DataConfig(data, header, units="degrees")\<close>: the keyword argument is an option,
  \<open>None\<close> when the caller does not pass it.
\<close>

definition DataConfig_init :: "frame \<Rightarrow> header \<Rightarrow> string option \<Rightarrow> DataConfig" where
  "DataConfig_init d h u =
     (let un = (case u of None \<Rightarrow> ''degrees'' | Some s \<Rightarrow> s)
      in \<lparr>dc_data = d, dc_header = h, dc_units = un, dc_u_factor = set_units_factor un\<rparr>)"

text \<open>
  \<open>np.arange\<close> belongs to numpy. It divides \<open>stop - start\<close> by \<open>step\<close> with the
  division of its operands: on Python floats a zero step raises \<open>ZeroDivisionError\<close>,
  on numpy scalars the quotient is nan and \<open>np.arange\<close> raises \<open>ValueError\<close>. The
  kind of the operands is therefore an argument of every model of \<open>np.arange\<close>.
\<close>

datatype operand_kind = PyFloat | NpFloat64

type_synonym np_arange = "operand_kind \<Rightarrow> real \<Rightarrow> real \<Rightarrow> real \<Rightarrow> py_error + real list"

text \<open>
  \<open>arange\<close> is \<open>np.arange\<close> in exact arithmetic: \<open>ceil((stop - start) / step)\<close>
  elements \<open>start + i * step\<close>, none when that number is not positive. It is what
  numpy returns wherever the quotient of the doubles is exact, as at the values of the
  examples below. Where the quotient is rounded numpy may return one element more, and
  near the largest doubles it refuses the length; \<open>arange\<close> has neither.
\<close>

definition arange :: np_arange where
  "arange kind start stop step =
     (if step = 0
      then Inl (case kind of PyFloat \<Rightarrow> ZeroDivisionError | NpFloat64 \<Rightarrow> ValueError)
      else Inr (map (\<lambda>i. start + real i * step) [0..<nat \<lceil>(stop - start) / step\<rceil>]))"

text \<open>
  \<open>config_axes\<close>, statement by statement, with \<open>np.arange\<close> as a parameter. The first
  values of \<open>x\<close> and \<open>y\<close> (the shape, then the scaled pixel indices
  \<open>ar(range(x)) * dx\<close>) are overwritten before the return; the result list
  \<open>[x, y, x1, y1]\<close> is a tuple. \<open>x1\<close> is a numpy scalar (\<open>np.abs\<close> returns one), and so
  are the operands of the first \<open>np.arange\<close>; the operands of the second are Python
  floats, the header holding Python numbers.
\<close>

definition config_axes_with ::
  "np_arange \<Rightarrow> DataConfig \<Rightarrow> py_error + (real list \<times> real list \<times> real \<times> real)" where
  "config_axes_with np_arange self =
     (let x = fst (shape (dc_data self));
          y = snd (shape (dc_data self))
      in bindE (getitem (dc_header self) ''cdelt1'') (\<lambda>cdelt1.
         let dx = cdelt1 * dc_u_factor self
         in bindE (getitem (dc_header self) ''cdelt2'') (\<lambda>cdelt2.
         let dy = cdelt2 * dc_u_factor self;
             x = map (\<lambda>i. real i * dx) [0..<x];
             y = map (\<lambda>i. real i * dy) [0..<y]
         in bindE (getitem (dc_header self) ''crpix1'') (\<lambda>crpix1.
         let x1 = (crpix1 - 1) * \<bar>dx\<bar>
         in bindE (getitem (dc_header self) ''crpix2'') (\<lambda>crpix2.
         let y1 = (crpix2 - 1) * dy
         in bindE (np_arange NpFloat64 x1 (- x1 - dx) (- dx)) (\<lambda>x.
            bindE (np_arange PyFloat (- y1) (y1 + dy) dy) (\<lambda>y.
            Inr (x, y, x1, y1))))))))"

text \<open>\<open>config_axes\<close> in exact arithmetic.\<close>

definition config_axes :: "DataConfig \<Rightarrow> py_error + (real list \<times> real list \<times> real \<times> real)" where
  "config_axes self = config_axes_with arange self"

section \<open>The colour scale\<close>

text \<open>
  \<open>np.amax(cube, axis=0)\<close> reduces over the frames, element by element. It raises
  \<open>ValueError\<close> on an empty cube, and when a sequence of frames of different
  shapes cannot be made an array. \<open>np.amax(a)\<close> is the maximum of all elements of
  \<open>a\<close> and raises \<open>ValueError\<close> when there is none. \<open>np.amin\<close> likewise.
\<close>

definition reduce_axis0 :: "(real \<Rightarrow> real \<Rightarrow> real) \<Rightarrow> cube \<Rightarrow> py_error + frame" where
  "reduce_axis0 op c =
     (case c of
        [] \<Rightarrow> Inl ValueError
      | f # fs \<Rightarrow>
          if list_all (\<lambda>g. shape g = shape f) fs
          then Inr \<lparr>shape = shape f,
                    flat = foldl (\<lambda>acc g. map2 op acc (flat g)) (flat f) fs\<rparr>
          else Inl ValueError)"

definition reduce_all :: "(real \<Rightarrow> real \<Rightarrow> real) \<Rightarrow> frame \<Rightarrow> py_error + real" where
  "reduce_all op a =
     (case flat a of [] \<Rightarrow> Inl ValueError | v # vs \<Rightarrow> Inr (foldl op v vs))"

definition amax_axis0 :: "cube \<Rightarrow> py_error + frame" where
  "amax_axis0 = reduce_axis0 max"

definition amin_axis0 :: "cube \<Rightarrow> py_error + frame" where
  "amin_axis0 = reduce_axis0 min"

definition amax :: "frame \<Rightarrow> py_error + real" where
  "amax = reduce_all max"

definition amin :: "frame \<Rightarrow> py_error + real" where
  "amin = reduce_all min"

section \<open>AnimationCreator\<close>

record AnimationCreator =
  ac_header :: header
  ac_cube :: cube
  ac_cube_axis :: "pyfloat list"
  ac_xlabel :: string
  ac_ylabel :: string
  ac_cblabel :: string
  ac_title :: string
  ac_cmap :: string
  ac_title_pad :: real
  ac_vmin :: "real option"
  ac_vmax :: "real option"

text \<open>
  \<open>__init__\<close>: the keyword arguments \<open>cmap\<close>, \<open>vmin\<close> and \<open>vmax\<close> are options
  (\<open>None\<close> when not passed; \<open>cmap\<close> defaults to \<open>"Spectral"\<close>). When either bound
  is \<open>None\<close>, \<open>vmax\<close> and then \<open>vmin\<close> are computed from the cube.
\<close>

definition AnimationCreator_init ::
  "header \<Rightarrow> cube \<Rightarrow> pyfloat list \<Rightarrow> string \<Rightarrow> string \<Rightarrow> string \<Rightarrow> string \<Rightarrow>
   string option \<Rightarrow> real \<Rightarrow> real option \<Rightarrow> real option \<Rightarrow> py_error + AnimationCreator" where
  "AnimationCreator_init header cube cube_axis xlabel ylabel cblabel title cmap title_pad vmin vmax =
     (let self = \<lparr>ac_header = header, ac_cube = cube, ac_cube_axis = cube_axis,
                  ac_xlabel = xlabel, ac_ylabel = ylabel, ac_cblabel = cblabel,
                  ac_title = title,
                  ac_cmap = (case cmap of None \<Rightarrow> ''Spectral'' | Some c \<Rightarrow> c),
                  ac_title_pad = title_pad, ac_vmin = vmin, ac_vmax = vmax\<rparr>
      in if ac_vmin self = None \<or> ac_vmax self = None
         then bindE (bindE (amax_axis0 cube) amax) (\<lambda>hi.
              bindE (bindE (amin_axis0 cube) amin) (\<lambda>lo.
              Inr (self\<lparr>ac_vmax := Some hi, ac_vmin := Some lo\<rparr>)))
         else Inr self)"

section \<open>Formatting a number with a fixed number of decimals\<close>

text \<open>
  The format specification \<open>.4f\<close> of the f-string, which belongs to Python. For a
  finite double: the sign (also of \<open>-0.0\<close>, and of a negative value that rounds to
  zero), the integer part and four decimals of the magnitude rounded to the nearest
  multiple of \<open>10\<^sup>-\<^sup>4\<close>, a tie going to the even neighbour (Python formats the exact
  value of the double). For the others: \<open>nan\<close>, \<open>inf\<close> and \<open>-inf\<close>, with no decimals.
\<close>

definition digit_char :: "nat \<Rightarrow> char" where
  "digit_char d = ''0123456789'' ! d"

fun str_nat :: "nat \<Rightarrow> string" where
  "str_nat n = (if n < 10 then [digit_char n] else str_nat (n div 10) @ [digit_char (n mod 10)])"

fun fixed_digits :: "nat \<Rightarrow> nat \<Rightarrow> string" where
  "fixed_digits 0 m = []"
| "fixed_digits (Suc p) m = fixed_digits p (m div 10) @ [digit_char (m mod 10)]"

definition round_half_even :: "real \<Rightarrow> int" where
  "round_half_even v =
     (let f = \<lfloor>v\<rfloor>; d = v - of_int f
      in if d < 1 / 2 then f
         else if 1 / 2 < d then f + 1
         else if even f then f else f + 1)"

definition format_fixed :: "nat \<Rightarrow> real \<Rightarrow> string" where
  "format_fixed p m =
     (let n = nat (round_half_even (m * 10 ^ p))
      in str_nat (n div 10 ^ p)
         @ (if p = 0 then [] else ''.'' @ fixed_digits p (n mod 10 ^ p)))"

definition format_f :: "nat \<Rightarrow> pyfloat \<Rightarrow> string" where
  "format_f p v =
     (case v of
        NaN \<Rightarrow> ''nan''
      | PosInf \<Rightarrow> ''inf''
      | NegInf \<Rightarrow> ''-inf''
      | _ \<Rightarrow> (if sign_bit v then ''-'' else []) @ format_fixed p (magnitude v))"

text \<open>
  The number that a string of decimal digits denotes, to state what a formatted value
  shows.
\<close>

definition digit_value :: "char \<Rightarrow> nat" where
  "digit_value c = of_char c - 48"

definition digits_value :: "string \<Rightarrow> nat" where
  "digits_value s = foldl (\<lambda>a c. 10 * a + digit_value c) 0 s"

section \<open>The plot and the colour bar\<close>

text \<open>
  The plotting library is outside the module. What the module does to it is recorded
  in a \<open>figure\<close>: the arguments of the \<open>imshow\<close> call, the data and the colour limits
  the image holds, the title, the labels and the colour bar.
\<close>

record colorbar =
  cb_label :: string
  cb_location :: string
  cb_size :: string
  cb_pad :: real
  cb_extend :: string
  cb_nbins :: "nat option"

record figure =
  im_data :: frame
  im_origin :: string
  im_aspect :: string
  im_cmap :: string
  im_extent :: "real list"
  im_clim :: "real option \<times> real option"
  ax_title :: string
  ax_title_pad :: "real option"
  ax_xlabel :: string
  ax_ylabel :: string
  fig_colorbar :: "colorbar option"

text \<open>
  \<open>imshow\<close> raises \<open>ValueError\<close> on a colour map name that the plotting library
  has not registered. The registry is the library's, not the module's: the registered
  names are a parameter.
\<close>

definition imshow ::
  "string list \<Rightarrow> frame \<Rightarrow> string \<Rightarrow> string \<Rightarrow> string \<Rightarrow> real list \<Rightarrow> py_error + figure" where
  "imshow registry d origin aspect cmap extent =
     (if cmap \<in> set registry
      then Inr \<lparr>im_data = d, im_origin = origin, im_aspect = aspect, im_cmap = cmap,
                im_extent = extent, im_clim = (None, None), ax_title = [], ax_title_pad = None,
                ax_xlabel = [], ax_ylabel = [], fig_colorbar = None\<rparr>
      else Inl ValueError)"

text \<open>
  \<open>ColorBarManager\<close>: its \<open>mappable\<close> is the image of the figure that the colour bar
  is then attached to; the manager holds the label and the location.
\<close>

record ColorBarManager =
  cbm_title :: string
  cbm_location :: string

definition ColorBarManager_init :: "string \<Rightarrow> string option \<Rightarrow> ColorBarManager" where
  "ColorBarManager_init title location =
     \<lparr>cbm_title = title,
      cbm_location = (case location of None \<Rightarrow> ''right'' | Some l \<Rightarrow> l)\<rparr>"

definition create_colorbar :: "ColorBarManager \<Rightarrow> colorbar" where
  "create_colorbar self =
     \<lparr>cb_label = cbm_title self, cb_location = cbm_location self,
      cb_size = ''5%'', cb_pad = 5 / 100, cb_extend = ''both'', cb_nbins = None\<rparr>"

section \<open>The frame update and the animation\<close>

text \<open>
  \<open>animate(i)\<close>, the closure of \<open>create_animation\<close>: it reads frame \<open>i\<close> and axis
  value \<open>i\<close> (an index out of range raises \<open>IndexError\<close>), sets the title, the data
  and the colour limits.
\<close>

definition getidx :: "'a list \<Rightarrow> nat \<Rightarrow> py_error + 'a" where
  "getidx xs i = (if i < length xs then Inr (xs ! i) else Inl IndexError)"

definition animate :: "AnimationCreator \<Rightarrow> nat \<Rightarrow> figure \<Rightarrow> py_error + figure" where
  "animate self i fig =
     bindE (getidx (ac_cube self) i) (\<lambda>arr.
     bindE (getidx (ac_cube_axis self) i) (\<lambda>phi_i.
     Inr (fig\<lparr>ax_title := ''Faraday Depth Spectrum at '' @ format_f 4 phi_i @ '' rad/m^2'',
              ax_title_pad := None,
              im_data := arr,
              im_clim := (ac_vmin self, ac_vmax self)\<rparr>)))"

text \<open>
  \<open>FuncAnimation(fig, func, frames=n, ...)\<close> followed by \<open>save\<close> belongs to the
  plotting library. Its documented contract is modelled: an integer \<open>frames\<close> stands
  for \<open>range(n)\<close>; \<open>save\<close> calls \<open>func\<close> on each value in turn, on the one figure,
  and hands the figure as drawn after each call to the encoder. An exception of
  \<open>func\<close> ends the run. (The library also draws the first value once before the run,
  to set the figure up; that drawing is not handed to the encoder and is not recorded.)
\<close>

fun draw_frames ::
  "(nat \<Rightarrow> figure \<Rightarrow> py_error + figure) \<Rightarrow> nat list \<Rightarrow> figure \<Rightarrow> py_error + (nat \<times> figure) list" where
  "draw_frames func [] fig = Inr []"
| "draw_frames func (i # is) fig =
     bindE (func i fig) (\<lambda>fig'.
     bindE (draw_frames func is fig') (\<lambda>out.
     Inr ((i, fig') # out)))"

record video =
  v_path :: string
  v_first :: figure
  v_frames :: "(nat \<times> figure) list"

definition FuncAnimation_save ::
  "figure \<Rightarrow> (nat \<Rightarrow> figure \<Rightarrow> py_error + figure) \<Rightarrow> nat \<Rightarrow> string \<Rightarrow> py_error + video" where
  "FuncAnimation_save fig func frames output_video =
     bindE (draw_frames func [0..<frames] fig) (\<lambda>out.
     Inr \<lparr>v_path = output_video, v_first = fig, v_frames = out\<rparr>)"

text \<open>
  \<open>create_animation\<close>, with the plotting library's registered colour map names as
  its first argument. The result records the figure as set up before the animation
  runs (\<open>v_first\<close>) and the frames handed to the encoder. The parameters \<open>fps\<close>,
  \<open>interval\<close> and \<open>repeat\<close> do not reach anything that is recorded.
\<close>

definition create_animation ::
  "string list \<Rightarrow> AnimationCreator \<Rightarrow> string \<Rightarrow> nat \<Rightarrow> nat \<Rightarrow> bool \<Rightarrow> py_error + video" where
  "create_animation registry self output_video fps interval repeat =
     bindE (getidx (ac_cube self) 0) (\<lambda>d0.
     let data_config = DataConfig_init d0 (ac_header self) None
     in bindE (config_axes data_config) (\<lambda>(x, y, x1, y1).
        bindE (getidx (ac_cube self) 0) (\<lambda>cv0.
        bindE (imshow registry cv0 ''lower'' ''equal'' (ac_cmap self) [x1, - x1, - y1, y1]) (\<lambda>im.
        let im = im\<lparr>ax_title := ac_title self, ax_title_pad := Some (ac_title_pad self)\<rparr>;
            im = im\<lparr>ax_xlabel := ac_xlabel self\<rparr>;
            im = im\<lparr>ax_ylabel := ac_ylabel self\<rparr>;
            colorbar_mgr = ColorBarManager_init (ac_cblabel self) None;
            cb = create_colorbar colorbar_mgr;
            cb = cb\<lparr>cb_nbins := Some 3\<rparr>;
            im = im\<lparr>fig_colorbar := Some cb\<rparr>
        in FuncAnimation_save im (animate self) (length (ac_cube self)) output_video))))"

text \<open>The header of the module's own run.\<close>

definition header_main :: header where
  "header_main = [''cdelt1'' \<mapsto> 1 / 2, ''cdelt2'' \<mapsto> 1 / 2, ''crpix1'' \<mapsto> 50, ''crpix2'' \<mapsto> 50]"

section \<open>Sample inputs\<close>

text \<open>
  Inputs for the examples: a cube of the two frames \<open>[-5, 10]\<close> and \<open>[0, 3]\<close>, and a
  cube of one 50 by 50 frame of zeros, each in a creator with the header, the labels
  and the colour map of the module's own run.
\<close>

definition cube_demo :: cube where
  "cube_demo = [\<lparr>shape = (1, 2), flat = [- 5, 10]\<rparr>, \<lparr>shape = (1, 2), flat = [0, 3]\<rparr>]"

definition creator_demo :: AnimationCreator where
  "creator_demo =
     \<lparr>ac_header = header_main, ac_cube = cube_demo, ac_cube_axis = [Num (- 10), Num (1 / 32)],
      ac_xlabel = ''X-axis'', ac_ylabel = ''Y-axis'', ac_cblabel = ''Color Bar'',
      ac_title = ''Sample Animation'', ac_cmap = ''plasma'', ac_title_pad = 0,
      ac_vmin = Some (- 5), ac_vmax = Some 10\<rparr>"

definition figure_demo :: figure where
  "figure_demo =
     \<lparr>im_data = \<lparr>shape = (1, 2), flat = [- 5, 10]\<rparr>, im_origin = ''lower'',
      im_aspect = ''equal'', im_cmap = ''plasma'', im_extent = [1, - 1, - 1, 1],
      im_clim = (None, None), ax_title = ''Sample Animation'', ax_title_pad = Some 0,
      ax_xlabel = ''X-axis'', ax_ylabel = ''Y-axis'', fig_colorbar = None\<rparr>"

definition cube_zeros :: cube where
  "cube_zeros = [\<lparr>shape = (50, 50), flat = replicate 2500 0\<rparr>]"

definition creator_zeros :: AnimationCreator where
  "creator_zeros =
     \<lparr>ac_header = header_main, ac_cube = cube_zeros, ac_cube_axis = [Num 0],
      ac_xlabel = ''X-axis'', ac_ylabel = ''Y-axis'', ac_cblabel = ''Color Bar'',
      ac_title = ''Sample Animation'', ac_cmap = ''plasma'', ac_title_pad = 0,
      ac_vmin = Some 0, ac_vmax = Some 0\<rparr>"

text \<open>
  A registry of the plotting library that holds \<open>Spectral\<close>, and a creator on an empty
  cube, as \<open>__init__\<close> builds it when both bounds are passed.
\<close>

definition registry_demo :: "string list" where
  "registry_demo = [''Spectral'', ''plasma'', ''viridis'']"

definition creator_empty :: AnimationCreator where
  "creator_empty =
     \<lparr>ac_header = header_main, ac_cube = [], ac_cube_axis = [],
      ac_xlabel = ''X-axis'', ac_ylabel = ''Y-axis'', ac_cblabel = ''Color Bar'',
      ac_title = ''Sample Animation'', ac_cmap = ''plasma'', ac_title_pad = 0,
      ac_vmin = Some 0, ac_vmax = Some 1\<rparr>"

section \<open>Properties: the units factor and the axes\<close>

text \<open>
  Claim C7. The factor of \<open>"arcmin"\<close> is 60, of \<open>"arcsec"\<close> 3600, of \<open>"rad"\<close>
  \<open>\<pi>/180\<close>, and of every other label, \<open>"degrees"\<close> included, 1. The function is
  total: no label makes it fail.
\<close>

theorem units_factor_table:
  "set_units_factor ''arcmin'' = 60 \<and> set_units_factor ''arcsec'' = 3600 \<and>
   set_units_factor ''rad'' = pi / 180 \<and> set_units_factor ''degrees'' = 1 \<and>
   (\<forall>u. u \<noteq> ''arcmin'' \<longrightarrow> u \<noteq> ''arcsec'' \<longrightarrow> u \<noteq> ''rad'' \<longrightarrow> set_units_factor u = 1)"
  by (simp add: set_units_factor_def np_pi_def)

theorem units_factor_table_witness:
  "set_units_factor ''anything_unrecognized'' = 1"
  using units_factor_table by simp

lemma config_axes_with_bind:
  assumes "dc_header self ''cdelt1'' = Some cdelt1" and "dc_header self ''cdelt2'' = Some cdelt2"
    and "dc_header self ''crpix1'' = Some crpix1" and "dc_header self ''crpix2'' = Some crpix2"
  shows "config_axes_with np_arange self =
     bindE (np_arange NpFloat64 ((crpix1 - 1) * \<bar>cdelt1 * dc_u_factor self\<bar>)
                   (- ((crpix1 - 1) * \<bar>cdelt1 * dc_u_factor self\<bar>) - cdelt1 * dc_u_factor self)
                   (- (cdelt1 * dc_u_factor self))) (\<lambda>x.
     bindE (np_arange PyFloat (- ((crpix2 - 1) * (cdelt2 * dc_u_factor self)))
                   ((crpix2 - 1) * (cdelt2 * dc_u_factor self) + cdelt2 * dc_u_factor self)
                   (cdelt2 * dc_u_factor self)) (\<lambda>y.
     Inr (x, y, (crpix1 - 1) * \<bar>cdelt1 * dc_u_factor self\<bar>,
          (crpix2 - 1) * (cdelt2 * dc_u_factor self))))"
  unfolding config_axes_with_def Let_def getitem_def assms bindE_def by simp

lemmas config_axes_bind = config_axes_with_bind [of _ _ _ _ _ arange, folded config_axes_def]

lemma arange_Inr:
  "step \<noteq> 0 \<Longrightarrow>
   arange kind start stop step
     = Inr (map (\<lambda>i. start + real i * step) [0..<nat \<lceil>(stop - start) / step\<rceil>])"
  unfolding arange_def by simp

text \<open>
  Claim C3. With the four header values present, and whatever \<open>np.arange\<close> returns,
  \<open>config_axes\<close> computes \<open>dx = cdelt1 * factor\<close>, \<open>dy = cdelt2 * factor\<close>,
  \<open>x1 = (crpix1 - 1) * |dx|\<close> with the absolute value and \<open>y1 = (crpix2 - 1) * dy\<close>
  without, and its result is \<open>[x, y, x1, y1]\<close> with \<open>x = arange(x1, -x1 - dx, -dx)\<close>,
  the reversed call, and \<open>y = arange(-y1, y1 + dy, dy)\<close>, the forward one: when the two
  calls return \<open>xs\<close> and \<open>ys\<close> the result is \<open>[xs, ys, x1, y1]\<close>, and an exception of
  either call is the exception of \<open>config_axes\<close>.
\<close>

theorem config_axes_computes:
  assumes "dc_header self ''cdelt1'' = Some cdelt1" and "dc_header self ''cdelt2'' = Some cdelt2"
    and "dc_header self ''crpix1'' = Some crpix1" and "dc_header self ''crpix2'' = Some crpix2"
  shows "let factor = dc_u_factor self;
             dx = cdelt1 * factor; dy = cdelt2 * factor;
             x1 = (crpix1 - 1) * \<bar>dx\<bar>; y1 = (crpix2 - 1) * dy
         in config_axes_with np_arange self =
              bindE (np_arange NpFloat64 x1 (- x1 - dx) (- dx)) (\<lambda>x.
              bindE (np_arange PyFloat (- y1) (y1 + dy) dy) (\<lambda>y. Inr (x, y, x1, y1)))
            \<and> (\<forall>xs ys. np_arange NpFloat64 x1 (- x1 - dx) (- dx) = Inr xs
                   \<longrightarrow> np_arange PyFloat (- y1) (y1 + dy) dy = Inr ys
                   \<longrightarrow> config_axes_with np_arange self = Inr (xs, ys, x1, y1))
            \<and> (\<forall>e. np_arange NpFloat64 x1 (- x1 - dx) (- dx) = Inl e
                   \<longrightarrow> config_axes_with np_arange self = Inl e)
            \<and> (\<forall>xs e. np_arange NpFloat64 x1 (- x1 - dx) (- dx) = Inr xs
                   \<longrightarrow> np_arange PyFloat (- y1) (y1 + dy) dy = Inl e
                   \<longrightarrow> config_axes_with np_arange self = Inl e)"
proof -
  define dx where "dx = cdelt1 * dc_u_factor self"
  define dy where "dy = cdelt2 * dc_u_factor self"
  define x1 where "x1 = (crpix1 - 1) * \<bar>dx\<bar>"
  define y1 where "y1 = (crpix2 - 1) * dy"
  have run: "config_axes_with np_arange self =
      bindE (np_arange NpFloat64 x1 (- x1 - dx) (- dx)) (\<lambda>x.
      bindE (np_arange PyFloat (- y1) (y1 + dy) dy) (\<lambda>y. Inr (x, y, x1, y1)))"
    unfolding x1_def y1_def dx_def dy_def by (rule config_axes_with_bind [OF assms])
  have ok: "config_axes_with np_arange self = Inr (xs, ys, x1, y1)"
    if "np_arange NpFloat64 x1 (- x1 - dx) (- dx) = Inr xs"
      and "np_arange PyFloat (- y1) (y1 + dy) dy = Inr ys" for xs ys
    unfolding run that bindE_def by simp
  have ex: "config_axes_with np_arange self = Inl e"
    if "np_arange NpFloat64 x1 (- x1 - dx) (- dx) = Inl e" for e
    unfolding run that bindE_def by simp
  have ey: "config_axes_with np_arange self = Inl e"
    if "np_arange NpFloat64 x1 (- x1 - dx) (- dx) = Inr xs"
      and "np_arange PyFloat (- y1) (y1 + dy) dy = Inl e" for xs e
    unfolding run that bindE_def by simp
  from run ok ex ey show ?thesis
    unfolding Let_def x1_def y1_def dx_def dy_def by blast
qed

text \<open>
  In exact arithmetic, at a header with negative steps and the units \<open>"arcmin"\<close>:
  \<open>dx = -30\<close>, \<open>dy = -15\<close>, \<open>x1 = 30\<close> (the absolute value) and \<open>y1 = -30\<close>
  (none); the reversed call is then empty.
\<close>

theorem config_axes_computes_witness:
  "config_axes_with arange (DataConfig_init \<lparr>shape = (1, 1), flat = [0]\<rparr>
       [''cdelt1'' \<mapsto> - 1 / 2, ''cdelt2'' \<mapsto> - 1 / 4, ''crpix1'' \<mapsto> 2, ''crpix2'' \<mapsto> 3]
       (Some ''arcmin''))
     = Inr ([], [30, 15, 0, - 15, - 30], 30, - 30)"
  using config_axes_computes [of "DataConfig_init \<lparr>shape = (1, 1), flat = [0]\<rparr>
       [''cdelt1'' \<mapsto> - 1 / 2, ''cdelt2'' \<mapsto> - 1 / 4, ''crpix1'' \<mapsto> 2, ''crpix2'' \<mapsto> 3]
       (Some ''arcmin'')" "- 1 / 2" "- 1 / 4" 2 3 arange]
  by (simp add: DataConfig_init_def set_units_factor_def Let_def upt_conv_Cons arange_def bindE_def)

text \<open>
  Claim C9. The result of \<open>config_axes\<close> does not depend on the frame: two
  configurations built from the same header and units, on any two frames, give the
  same result (the same values or the same exception).
\<close>

theorem config_axes_ignores_data:
  "config_axes (DataConfig_init d1 h u) = config_axes (DataConfig_init d2 h u)"
  by (simp add: config_axes_def config_axes_with_def DataConfig_init_def Let_def)

section \<open>Properties: the colour scale\<close>


lemma foldl_max_Max: "foldl max (v::real) vs = Max (set (v # vs))"
proof (induction vs arbitrary: v)
  case Nil
  then show ?case by simp
next
  case (Cons a vs)
  show ?case
    by (cases "set vs = {}") (simp_all add: Cons.IH max.assoc max.commute)
qed

lemma foldl_min_Min: "foldl min (v::real) vs = Min (set (v # vs))"
proof (induction vs arbitrary: v)
  case Nil
  then show ?case by simp
next
  case (Cons a vs)
  show ?case
    by (cases "set vs = {}") (simp_all add: Cons.IH min.assoc min.commute)
qed

lemma Max_map2_max:
  "length a = length b \<Longrightarrow> a \<noteq> [] \<Longrightarrow>
   Max (set (map2 max a b)) = max (Max (set a)) (Max (set (b::real list)))"
proof (induction a b rule: list_induct2)
  case Nil
  then show ?case by simp
next
  case (Cons x xs y ys)
  show ?case
  proof (cases "xs = []")
    case True
    with Cons show ?thesis by simp
  next
    case False
    with Cons have "ys \<noteq> []" by auto
    with False Cons show ?thesis
      by (simp add: max.assoc max.left_commute)
  qed
qed

lemma Min_map2_min:
  "length a = length b \<Longrightarrow> a \<noteq> [] \<Longrightarrow>
   Min (set (map2 min a b)) = min (Min (set a)) (Min (set (b::real list)))"
proof (induction a b rule: list_induct2)
  case Nil
  then show ?case by simp
next
  case (Cons x xs y ys)
  show ?case
  proof (cases "xs = []")
    case True
    with Cons show ?thesis by simp
  next
    case False
    with Cons have "ys \<noteq> []" by auto
    with False Cons show ?thesis
      by (simp add: min.assoc min.left_commute)
  qed
qed

lemma foldl_map2_length:
  "list_all (\<lambda>g. length (flat g) = length a) fs \<Longrightarrow>
   length (foldl (\<lambda>acc g. map2 op acc (flat g)) a fs) = length a"
  by (induction fs arbitrary: a) auto

lemma Max_axis0:
  "list_all (\<lambda>g. length (flat g) = length a) fs \<Longrightarrow> a \<noteq> [] \<Longrightarrow>
   Max (set (foldl (\<lambda>acc g. map2 max acc (flat g)) a fs))
     = Max (set a \<union> (\<Union>g\<in>set fs. set (flat g)))"
proof (induction fs arbitrary: a)
  case Nil
  then show ?case by simp
next
  case (Cons g gs)
  from Cons.prems have len: "length a = length (flat g)" and ne: "flat g \<noteq> []"
    and rest: "list_all (\<lambda>h. length (flat h) = length (map2 max a (flat g))) gs"
    by auto
  have ne': "map2 max a (flat g) \<noteq> []" using Cons.prems(2) ne by (cases a; cases "flat g") auto
  have "Max (set (foldl (\<lambda>acc g. map2 max acc (flat g)) a (g # gs)))
      = Max (set (map2 max a (flat g)) \<union> (\<Union>h\<in>set gs. set (flat h)))"
    using Cons.IH [OF rest ne'] by simp
  also have "\<dots> = Max (set a \<union> (\<Union>h\<in>set (g # gs). set (flat h)))"
  proof (cases "(\<Union>h\<in>set gs. set (flat h)) = {}")
    case True
    then show ?thesis
      using Max_map2_max [OF len Cons.prems(2)] Cons.prems(2) ne
      by (simp add: Max_Un)
  next
    case False
    have fin: "finite (\<Union>h\<in>set gs. set (flat h))" by simp
    show ?thesis
      using Max_map2_max [OF len Cons.prems(2)] Cons.prems(2) ne ne' False fin
      by (simp add: Max_Un max.assoc Un_assoc)
  qed
  finally show ?case .
qed

lemma Min_axis0:
  "list_all (\<lambda>g. length (flat g) = length a) fs \<Longrightarrow> a \<noteq> [] \<Longrightarrow>
   Min (set (foldl (\<lambda>acc g. map2 min acc (flat g)) a fs))
     = Min (set a \<union> (\<Union>g\<in>set fs. set (flat g)))"
proof (induction fs arbitrary: a)
  case Nil
  then show ?case by simp
next
  case (Cons g gs)
  from Cons.prems have len: "length a = length (flat g)" and ne: "flat g \<noteq> []"
    and rest: "list_all (\<lambda>h. length (flat h) = length (map2 min a (flat g))) gs"
    by auto
  have ne': "map2 min a (flat g) \<noteq> []" using Cons.prems(2) ne by (cases a; cases "flat g") auto
  have "Min (set (foldl (\<lambda>acc g. map2 min acc (flat g)) a (g # gs)))
      = Min (set (map2 min a (flat g)) \<union> (\<Union>h\<in>set gs. set (flat h)))"
    using Cons.IH [OF rest ne'] by simp
  also have "\<dots> = Min (set a \<union> (\<Union>h\<in>set (g # gs). set (flat h)))"
  proof (cases "(\<Union>h\<in>set gs. set (flat h)) = {}")
    case True
    then show ?thesis
      using Min_map2_min [OF len Cons.prems(2)] Cons.prems(2) ne
      by (simp add: Min_Un)
  next
    case False
    have fin: "finite (\<Union>h\<in>set gs. set (flat h))" by simp
    show ?thesis
      using Min_map2_min [OF len Cons.prems(2)] Cons.prems(2) ne ne' False fin
      by (simp add: Min_Un min.assoc Un_assoc)
  qed
  finally show ?case .
qed

lemma same_shape_lengths:
  assumes "\<forall>f\<in>set (g # gs). frame_ok f \<and> shape f = (r, c)"
  shows "list_all (\<lambda>h. shape h = shape g) gs"
    and "list_all (\<lambda>h. length (flat h) = length (flat g)) gs"
    and "length (flat g) = r * c"
  using assms by (auto simp: list_all_iff frame_ok_def)

lemma amax_cube:
  assumes "\<forall>f\<in>set (g # gs). frame_ok f \<and> shape f = (r, c)" and "0 < r" and "0 < c"
  shows "bindE (amax_axis0 (g # gs)) amax = Inr (Max (\<Union>f\<in>set (g # gs). set (flat f)))"
proof -
  note sh = same_shape_lengths [OF assms(1)]
  from sh(3) assms(2,3) have ne: "flat g \<noteq> []" by auto
  let ?a = "foldl (\<lambda>acc h. map2 max acc (flat h)) (flat g) gs"
  have "length ?a = length (flat g)" by (rule foldl_map2_length [OF sh(2)])
  with ne obtain v vs where a: "?a = v # vs" by (cases ?a) auto
  have "bindE (amax_axis0 (g # gs)) amax = Inr (foldl max v vs)"
    using sh(1) a by (simp add: amax_axis0_def reduce_axis0_def amax_def reduce_all_def bindE_def)
  also have "foldl max v vs = Max (set ?a)" unfolding a by (rule foldl_max_Max)
  also have "\<dots> = Max (set (flat g) \<union> (\<Union>h\<in>set gs. set (flat h)))"
    by (rule Max_axis0 [OF sh(2) ne])
  finally show ?thesis by simp
qed

lemma amin_cube:
  assumes "\<forall>f\<in>set (g # gs). frame_ok f \<and> shape f = (r, c)" and "0 < r" and "0 < c"
  shows "bindE (amin_axis0 (g # gs)) amin = Inr (Min (\<Union>f\<in>set (g # gs). set (flat f)))"
proof -
  note sh = same_shape_lengths [OF assms(1)]
  from sh(3) assms(2,3) have ne: "flat g \<noteq> []" by auto
  let ?a = "foldl (\<lambda>acc h. map2 min acc (flat h)) (flat g) gs"
  have "length ?a = length (flat g)" by (rule foldl_map2_length [OF sh(2)])
  with ne obtain v vs where a: "?a = v # vs" by (cases ?a) auto
  have "bindE (amin_axis0 (g # gs)) amin = Inr (foldl min v vs)"
    using sh(1) a by (simp add: amin_axis0_def reduce_axis0_def amin_def reduce_all_def bindE_def)
  also have "foldl min v vs = Min (set ?a)" unfolding a by (rule foldl_min_Min)
  also have "\<dots> = Min (set (flat g) \<union> (\<Union>h\<in>set gs. set (flat h)))"
    by (rule Min_axis0 [OF sh(2) ne])
  finally show ?thesis by simp
qed

text \<open>
  Claim C2, amended. For a cube that is not empty and whose frames have one shape with
  at least one element: when either bound is \<open>None\<close>, \<open>__init__\<close> sets \<open>vmin\<close>
  to the least and \<open>vmax\<close> to the greatest element of all frames, whatever single
  bound the caller passed. On an empty cube the reduction raises instead.
\<close>

theorem color_scale_global_extrema:
  assumes "cube \<noteq> []" and "\<forall>f\<in>set cube. frame_ok f \<and> shape f = (r, c)"
    and "0 < r" and "0 < c" and "vmin = None \<or> vmax = None"
  shows "AnimationCreator_init header cube cube_axis xlabel ylabel cblabel title cmap title_pad vmin vmax
     = Inr \<lparr>ac_header = header, ac_cube = cube, ac_cube_axis = cube_axis,
            ac_xlabel = xlabel, ac_ylabel = ylabel, ac_cblabel = cblabel, ac_title = title,
            ac_cmap = (case cmap of None \<Rightarrow> ''Spectral'' | Some c \<Rightarrow> c),
            ac_title_pad = title_pad,
            ac_vmin = Some (Min (\<Union>f\<in>set cube. set (flat f))),
            ac_vmax = Some (Max (\<Union>f\<in>set cube. set (flat f)))\<rparr>"
proof -
  from assms(1) obtain g gs where c: "cube = g # gs" by (cases cube) auto
  note hi = amax_cube [OF assms(2) [unfolded c] assms(3,4)]
  note lo = amin_cube [OF assms(2) [unfolded c] assms(3,4)]
  show ?thesis
    using assms(5) unfolding AnimationCreator_init_def Let_def c hi lo
    by (auto simp: bindE_def)
qed

text \<open>
  The cube of the frames \<open>[-5, 10]\<close> and \<open>[0, 3]\<close>, with \<open>vmin = 0\<close> passed and
  \<open>vmax\<close> not: the scale is \<open>(-5, 10)\<close>.
\<close>

theorem color_scale_global_extrema_witness:
  "AnimationCreator_init header_main
       [\<lparr>shape = (1, 2), flat = [- 5, 10]\<rparr>, \<lparr>shape = (1, 2), flat = [0, 3]\<rparr>] [Num 0, Num 1]
       ''x'' ''y'' ''c'' ''t'' None 0 (Some 0) None
     = Inr \<lparr>ac_header = header_main,
            ac_cube = [\<lparr>shape = (1, 2), flat = [- 5, 10]\<rparr>, \<lparr>shape = (1, 2), flat = [0, 3]\<rparr>],
            ac_cube_axis = [Num 0, Num 1],
            ac_xlabel = ''x'', ac_ylabel = ''y'', ac_cblabel = ''c'', ac_title = ''t'',
            ac_cmap = ''Spectral'', ac_title_pad = 0,
            ac_vmin = Some (- 5), ac_vmax = Some 10\<rparr>"
  using color_scale_global_extrema [of
       "[\<lparr>shape = (1, 2), flat = [- 5, 10]\<rparr>, \<lparr>shape = (1, 2), flat = [0, 3]\<rparr>]" 1 2
       "Some 0" None header_main "[Num 0, Num 1]" "''x''" "''y''" "''c''" "''t''" None 0]
  by (simp add: frame_ok_def)

text \<open>
  The claim as stated speaks of every cube. On the empty cube with no bounds passed
  \<open>np.amax\<close> raises \<open>ValueError\<close>: no bound is set.
\<close>

theorem color_scale_empty_cube:
  "AnimationCreator_init header_main [] [] ''x'' ''y'' ''c'' ''t'' None 0 None None = Inl ValueError"
  by (simp add: AnimationCreator_init_def amax_axis0_def reduce_axis0_def bindE_def)

section \<open>Properties: the frame update\<close>

lemma animate_Inr:
  assumes "i < length (ac_cube self)" and "i < length (ac_cube_axis self)"
  shows "animate self i fig =
     Inr (fig\<lparr>ax_title := ''Faraday Depth Spectrum at '' @ format_f 4 (ac_cube_axis self ! i) @ '' rad/m^2'',
              ax_title_pad := None,
              im_data := ac_cube self ! i,
              im_clim := (ac_vmin self, ac_vmax self)\<rparr>)"
  using assms by (simp add: animate_def getidx_def bindE_def)

lemma length_fixed_digits: "length (fixed_digits p m) = p"
  by (induction p arbitrary: m) auto

lemma digit_char_digit: "d < 10 \<Longrightarrow> digit_char d \<in> set ''0123456789''"
  unfolding digit_char_def by (rule nth_mem) simp

lemma fixed_digits_digits: "set (fixed_digits p m) \<subseteq> set ''0123456789''"
proof (induction p arbitrary: m)
  case 0
  then show ?case by simp
next
  case (Suc p)
  have "digit_char (m mod 10) \<in> set ''0123456789''" by (rule digit_char_digit) simp
  with Suc.IH [of "m div 10"] show ?case by simp
qed

declare str_nat.simps [simp del]

lemma str_nat_digits: "set (str_nat n) \<subseteq> set ''0123456789''"
proof (induction n rule: str_nat.induct)
  case (1 n)
  show ?case
  proof (cases "n < 10")
    case True
    then show ?thesis using digit_char_digit [of n] by (subst str_nat.simps) simp
  next
    case False
    have "digit_char (n mod 10) \<in> set ''0123456789''" by (rule digit_char_digit) simp
    with False 1 show ?thesis by (subst str_nat.simps) simp
  qed
qed

lemma str_nat_nonempty: "str_nat n \<noteq> []"
  by (subst str_nat.simps) simp

lemma round_half_even_near: "\<bar>real_of_int (round_half_even v) - v\<bar> \<le> 1 / 2"
  unfolding round_half_even_def Let_def by (auto; linarith)

lemma round_half_even_nonneg: "0 \<le> v \<Longrightarrow> 0 \<le> round_half_even v"
  unfolding round_half_even_def Let_def by (auto; linarith)

lemma round_half_even_tie:
  "\<bar>real_of_int (round_half_even v) - v\<bar> = 1 / 2 \<Longrightarrow> even (round_half_even v)"
  unfolding round_half_even_def Let_def by (auto split: if_splits; linarith)

lemma digit_value_digit_char: "d < 10 \<Longrightarrow> digit_value (digit_char d) = d"
proof -
  assume "d < 10"
  then have "d \<in> {0, 1, 2, 3, 4, 5, 6, 7, 8, 9}" by auto
  then show ?thesis
    by (auto simp: digit_value_def digit_char_def)
qed

lemma digits_value_snoc: "digits_value (s @ [c]) = 10 * digits_value s + digit_value c"
  by (simp add: digits_value_def)

lemma digits_value_str_nat: "digits_value (str_nat n) = n"
proof (induction n rule: str_nat.induct)
  case (1 n)
  show ?case
  proof (cases "n < 10")
    case True
    then show ?thesis
      by (subst str_nat.simps) (simp add: digits_value_def digit_value_digit_char)
  next
    case False
    have "digits_value (str_nat (n div 10) @ [digit_char (n mod 10)]) = 10 * (n div 10) + n mod 10"
      unfolding digits_value_snoc "1" [OF False] by (simp add: digit_value_digit_char)
    with False show ?thesis by (subst str_nat.simps) simp
  qed
qed

lemma digits_value_fixed_digits:
  "digits_value (s @ fixed_digits p m) = digits_value s * 10 ^ p + m mod 10 ^ p"
proof (induction p arbitrary: m)
  case 0
  then show ?case by simp
next
  case (Suc p)
  have "digits_value (s @ fixed_digits (Suc p) m)
      = 10 * digits_value (s @ fixed_digits p (m div 10)) + m mod 10"
    using digits_value_snoc [of "s @ fixed_digits p (m div 10)" "digit_char (m mod 10)"]
    by (simp add: digit_value_digit_char)
  also have "\<dots> = digits_value s * 10 ^ Suc p + (10 * (m div 10 mod 10 ^ p) + m mod 10)"
    unfolding Suc.IH by (simp add: algebra_simps)
  also have "10 * (m div 10 mod 10 ^ p) + m mod 10 = m mod 10 ^ Suc p"
    by (simp add: mod_mult2_eq)
  finally show ?case .
qed

lemma digits_value_number:
  "digits_value (str_nat (n div 10 ^ p) @ fixed_digits p (n mod 10 ^ p)) = n"
  unfolding digits_value_fixed_digits digits_value_str_nat by (simp only: mod_mod_trivial div_mult_mod_eq)

lemma digit_char_zero: "d < 10 \<Longrightarrow> digit_char d = CHR ''0'' \<Longrightarrow> d = 0"
proof -
  assume d: "d < 10" and z: "digit_char d = CHR ''0''"
  have "digit_value (digit_char d) = digit_value (CHR ''0'')" by (simp only: z)
  with d show ?thesis by (simp add: digit_value_digit_char) (simp add: digit_value_def)
qed

lemma str_nat_hd: "0 < n \<Longrightarrow> hd (str_nat n) \<noteq> CHR ''0''"
proof (induction n rule: str_nat.induct)
  case (1 n)
  show ?case
  proof (cases "n < 10")
    case True
    with "1.prems" digit_char_zero [of n] show ?thesis
      by (subst str_nat.simps) auto
  next
    case False
    then have "0 < n div 10" by simp
    with "1.IH" False have "hd (str_nat (n div 10)) \<noteq> CHR ''0''" by simp
    with False str_nat_nonempty [of "n div 10"] show ?thesis
      by (subst str_nat.simps) simp
  qed
qed

lemma str_nat_leading: "length (str_nat n) = 1 \<or> hd (str_nat n) \<noteq> CHR ''0''"
proof (cases "n = 0")
  case True
  then show ?thesis by (subst str_nat.simps) simp
next
  case False
  then show ?thesis using str_nat_hd [of n] by simp
qed

lemma format_fixed_4:
  assumes "0 \<le> m"
  shows "\<exists>ip fr. format_fixed 4 m = ip @ ''.'' @ fr
       \<and> length fr = 4 \<and> ip \<noteq> [] \<and> set (ip @ fr) \<subseteq> set ''0123456789''
       \<and> (length ip = 1 \<or> hd ip \<noteq> CHR ''0'')
       \<and> \<bar>real (digits_value (ip @ fr)) - m * 10000\<bar> \<le> 1 / 2
       \<and> (\<bar>real (digits_value (ip @ fr)) - m * 10000\<bar> = 1 / 2 \<longrightarrow> even (digits_value (ip @ fr)))"
proof -
  let ?r = "round_half_even (m * 10 ^ 4)"
  let ?n = "nat ?r"
  let ?ip = "str_nat (?n div 10 ^ 4)"
  let ?fr = "fixed_digits 4 (?n mod 10 ^ 4)"
  have "0 \<le> ?r" by (rule round_half_even_nonneg) (simp add: assms)
  then have rn: "real ?n = real_of_int ?r" and ev: "even ?n \<longleftrightarrow> even ?r"
    by (simp_all add: even_nat_iff)
  have dv: "digits_value (?ip @ ?fr) = ?n" by (rule digits_value_number)
  have near: "\<bar>real (digits_value (?ip @ ?fr)) - m * 10000\<bar> \<le> 1 / 2"
    using round_half_even_near [of "m * 10 ^ 4"] unfolding dv rn by simp
  have tie: "\<bar>real (digits_value (?ip @ ?fr)) - m * 10000\<bar> = 1 / 2
      \<longrightarrow> even (digits_value (?ip @ ?fr))"
    using round_half_even_tie [of "m * 10 ^ 4"] unfolding dv rn ev by simp
  have f: "format_fixed 4 m = ?ip @ ''.'' @ ?fr"
    by (simp add: format_fixed_def Let_def)
  have dg: "set (?ip @ ?fr) \<subseteq> set ''0123456789''"
    using str_nat_digits [of "?n div 10 ^ 4"] fixed_digits_digits [of 4 "?n mod 10 ^ 4"]
    by (simp only: set_append Un_subset_iff)
  show ?thesis
    by (rule exI [of _ ?ip], rule exI [of _ ?fr], intro conjI)
      (rule f, rule length_fixed_digits, rule str_nat_nonempty, rule dg, rule str_nat_leading,
       rule near, rule tie)
qed

lemma magnitude_nonneg: "0 \<le> magnitude v"
  by (cases v) simp_all

lemma format_f_finite:
  "is_finite v \<Longrightarrow> format_f p v = (if sign_bit v then ''-'' else []) @ format_fixed p (magnitude v)"
  by (cases v) (simp_all add: format_f_def)

lemma format_f_not_finite:
  "\<not> is_finite v \<Longrightarrow> format_f p v \<in> {''nan'', ''inf'', ''-inf''}"
  by (cases v) (simp_all add: format_f_def)

lemma digit_char_simps:
  "digit_char 0 = CHR ''0''" "digit_char (Suc 0) = CHR ''1''" "digit_char 1 = CHR ''1''"
  "digit_char 2 = CHR ''2''" "digit_char 3 = CHR ''3''" "digit_char 4 = CHR ''4''"
  "digit_char 5 = CHR ''5''" "digit_char 6 = CHR ''6''" "digit_char 7 = CHR ''7''"
  "digit_char 8 = CHR ''8''" "digit_char 9 = CHR ''9''"
  by (simp_all add: digit_char_def)

lemma fixed_digits_4:
  "fixed_digits 4 m = [digit_char (m div 1000 mod 10), digit_char (m div 100 mod 10),
                       digit_char (m div 10 mod 10), digit_char (m mod 10)]"
proof -
  have "fixed_digits (Suc (Suc (Suc (Suc 0)))) m =
      [digit_char (m div 1000 mod 10), digit_char (m div 100 mod 10),
       digit_char (m div 10 mod 10), digit_char (m mod 10)]"
    by (simp add: div_mult2_eq [symmetric])
  then show ?thesis
    by (simp only: numeral_eq_Suc pred_numeral_simps BitM.simps)
qed

lemmas format_eval =
  format_f_def format_fixed_def round_half_even_def Let_def fixed_digits_4 digit_char_simps
  str_nat.simps

lemma format_f_example1: "format_f 4 (Num (- 10)) = ''-10.0000''"
  by (simp add: format_eval)

lemma format_f_example2: "format_f 4 (Num (1 / 32)) = ''0.0312''"
  by (simp add: format_eval)

lemma format_f_example3: "format_f 4 (Num 0) = ''0.0000''"
  by (simp add: format_eval)

lemma format_f_example4: "format_f 4 NegZero = ''-0.0000''"
  by (simp add: format_eval)

lemma format_f_example5: "format_f 4 (Num (- 1 / 100000)) = ''-0.0000''"
  by (simp add: format_eval)

lemma format_f_example6: "format_f 4 NaN = ''nan''"
  by (simp add: format_f_def)

text \<open>
  Claim C5, amended. For a frame index \<open>i\<close> within the cube and the axis, the update
  sets the title to the fixed text, the value \<open>cube_axis[i]\<close> in the format \<open>.4f\<close> and
  the suffix \<open>rad/m^2\<close>, shows \<open>cube[i]\<close>, and sets the colour limits to the creator's
  \<open>(vmin, vmax)\<close>. When the value is finite it is written as its sign, an integer part
  without leading zeros, a point and exactly four decimal digits, and these digits are
  those of the magnitude rounded to the nearest multiple of \<open>10\<^sup>-\<^sup>4\<close>, a tie going to
  the even one. When it is not finite it is written \<open>nan\<close>, \<open>inf\<close> or \<open>-inf\<close>.
\<close>

theorem animate_title_and_clim:
  assumes "i < length (ac_cube self)" and "i < length (ac_cube_axis self)"
  shows "\<exists>fig'. animate self i fig = Inr fig'
     \<and> ax_title fig' = ''Faraday Depth Spectrum at '' @ format_f 4 (ac_cube_axis self ! i) @ '' rad/m^2''
     \<and> im_clim fig' = (ac_vmin self, ac_vmax self)
     \<and> im_data fig' = ac_cube self ! i
     \<and> (is_finite (ac_cube_axis self ! i) \<longrightarrow>
          (\<exists>ip fr. format_f 4 (ac_cube_axis self ! i)
                = (if sign_bit (ac_cube_axis self ! i) then ''-'' else []) @ ip @ ''.'' @ fr
             \<and> length fr = 4 \<and> ip \<noteq> [] \<and> set (ip @ fr) \<subseteq> set ''0123456789''
             \<and> (length ip = 1 \<or> hd ip \<noteq> CHR ''0'')
             \<and> \<bar>real (digits_value (ip @ fr)) - magnitude (ac_cube_axis self ! i) * 10000\<bar> \<le> 1 / 2
             \<and> (\<bar>real (digits_value (ip @ fr)) - magnitude (ac_cube_axis self ! i) * 10000\<bar> = 1 / 2
                  \<longrightarrow> even (digits_value (ip @ fr)))))
     \<and> (\<not> is_finite (ac_cube_axis self ! i) \<longrightarrow>
          format_f 4 (ac_cube_axis self ! i) \<in> {''nan'', ''inf'', ''-inf''})"
proof -
  let ?v = "ac_cube_axis self ! i"
  have fin: "\<exists>ip fr. format_f 4 ?v = (if sign_bit ?v then ''-'' else []) @ ip @ ''.'' @ fr
             \<and> length fr = 4 \<and> ip \<noteq> [] \<and> set (ip @ fr) \<subseteq> set ''0123456789''
             \<and> (length ip = 1 \<or> hd ip \<noteq> CHR ''0'')
             \<and> \<bar>real (digits_value (ip @ fr)) - magnitude ?v * 10000\<bar> \<le> 1 / 2
             \<and> (\<bar>real (digits_value (ip @ fr)) - magnitude ?v * 10000\<bar> = 1 / 2
                  \<longrightarrow> even (digits_value (ip @ fr)))" if "is_finite ?v"
  proof -
    from format_fixed_4 [OF magnitude_nonneg [of ?v]] obtain ip fr where
      f: "format_fixed 4 (magnitude ?v) = ip @ ''.'' @ fr"
      and rest: "length fr = 4" "ip \<noteq> []" "set (ip @ fr) \<subseteq> set ''0123456789''"
        "length ip = 1 \<or> hd ip \<noteq> CHR ''0''"
        "\<bar>real (digits_value (ip @ fr)) - magnitude ?v * 10000\<bar> \<le> 1 / 2"
        "\<bar>real (digits_value (ip @ fr)) - magnitude ?v * 10000\<bar> = 1 / 2
           \<longrightarrow> even (digits_value (ip @ fr))"
      by blast
    have "format_f 4 ?v = (if sign_bit ?v then ''-'' else []) @ ip @ ''.'' @ fr"
      unfolding format_f_finite [OF that] f ..
    with rest show ?thesis by blast
  qed
  have nonfin: "format_f 4 ?v \<in> {''nan'', ''inf'', ''-inf''}" if "\<not> is_finite ?v"
    using that by (rule format_f_not_finite)
  have a: "animate self i fig =
     Inr (fig\<lparr>ax_title := ''Faraday Depth Spectrum at '' @ format_f 4 ?v @ '' rad/m^2'',
              ax_title_pad := None,
              im_data := ac_cube self ! i,
              im_clim := (ac_vmin self, ac_vmax self)\<rparr>)"
    by (rule animate_Inr [OF assms])
  show ?thesis
    unfolding a
    by (rule exI, intro conjI)
      (rule refl, simp, simp, simp, (rule impI, erule fin), (rule impI, erule nonfin))
qed

text \<open>
  At the second frame of the sample creator, whose axis value is \<open>0.03125\<close>: a tie,
  written \<open>0.0312\<close>.
\<close>

theorem animate_title_and_clim_witness:
  "ax_title (projr (animate creator_demo 1 figure_demo))
     = ''Faraday Depth Spectrum at 0.0312 rad/m^2''
   \<and> im_clim (projr (animate creator_demo 1 figure_demo))
     = (Some (- 5), Some 10)"
proof -
  have i: "1 < length (ac_cube creator_demo)" "1 < length (ac_cube_axis creator_demo)"
    by (simp_all add: creator_demo_def cube_demo_def)
  from animate_title_and_clim [OF i] obtain fig' where
    a: "animate creator_demo 1 figure_demo = Inr fig'"
    and t: "ax_title fig' = ''Faraday Depth Spectrum at '' @ format_f 4 (ac_cube_axis creator_demo ! 1) @ '' rad/m^2''"
    and c: "im_clim fig' = (ac_vmin creator_demo, ac_vmax creator_demo)"
    by blast
  show ?thesis
    unfolding a by (simp add: t c creator_demo_def format_f_example2)
qed

text \<open>
  The claim as stated has four decimals at every frame index. With nan as the axis
  value the title has none.
\<close>

theorem animate_title_nan_counterexample:
  "ax_title (projr (animate (creator_demo\<lparr>ac_cube_axis := [Num (- 10), NaN]\<rparr>) 1 figure_demo))
     = ''Faraday Depth Spectrum at nan rad/m^2''"
  by (simp add: animate_def getidx_def bindE_def creator_demo_def cube_demo_def format_f_def)

section \<open>Properties: the animation\<close>

lemma draw_frames_animate:
  assumes "\<forall>i\<in>set js. i < length (ac_cube self) \<and> i < length (ac_cube_axis self)"
  shows "draw_frames (animate self) js fig =
     Inr (map (\<lambda>i. (i, fig\<lparr>ax_title := ''Faraday Depth Spectrum at '' @ format_f 4 (ac_cube_axis self ! i) @ '' rad/m^2'',
                            ax_title_pad := None,
                            im_data := ac_cube self ! i,
                            im_clim := (ac_vmin self, ac_vmax self)\<rparr>)) js)"
  using assms
proof (induction js arbitrary: fig)
  case Nil
  then show ?case by simp
next
  case (Cons j js)
  from Cons.prems have j: "j < length (ac_cube self)" "j < length (ac_cube_axis self)"
    and rest: "\<forall>i\<in>set js. i < length (ac_cube self) \<and> i < length (ac_cube_axis self)"
    by simp_all
  show ?case
    by (simp add: animate_Inr [OF j] Cons.IH [OF rest] bindE_def)
qed

lemma config_axes_degrees:
  assumes "h ''cdelt1'' = Some cdelt1" and "h ''cdelt2'' = Some cdelt2"
    and "h ''crpix1'' = Some crpix1" and "h ''crpix2'' = Some crpix2"
    and "cdelt1 \<noteq> 0" and "cdelt2 \<noteq> 0"
  shows "config_axes (DataConfig_init d h None) =
     Inr (map (\<lambda>i. (crpix1 - 1) * \<bar>cdelt1\<bar> + real i * (- cdelt1))
            [0..<nat \<lceil>(- ((crpix1 - 1) * \<bar>cdelt1\<bar>) - cdelt1 - (crpix1 - 1) * \<bar>cdelt1\<bar>) / (- cdelt1)\<rceil>],
          map (\<lambda>i. - ((crpix2 - 1) * cdelt2) + real i * cdelt2)
            [0..<nat \<lceil>((crpix2 - 1) * cdelt2 + cdelt2 - (- ((crpix2 - 1) * cdelt2))) / cdelt2\<rceil>],
          (crpix1 - 1) * \<bar>cdelt1\<bar>, (crpix2 - 1) * cdelt2)"
proof -
  let ?self = "DataConfig_init d h None"
  have f: "dc_u_factor ?self = 1" and hh: "dc_header ?self = h"
    by (simp_all add: DataConfig_init_def set_units_factor_def)
  have nz: "- cdelt1 \<noteq> 0" using assms(5) by simp
  show ?thesis
    unfolding config_axes_bind [of ?self cdelt1 cdelt2 crpix1 crpix2, unfolded hh, OF assms(1-4)] f
      mult_1_right arange_Inr [OF nz] arange_Inr [OF assms(6)] bindE_def
    by (simp only: sum.case)
qed

lemma create_animation_result:
  assumes "ac_cube self \<noteq> []"
    and "length (ac_cube self) \<le> length (ac_cube_axis self)"
    and "ac_header self ''cdelt1'' = Some cdelt1" and "ac_header self ''cdelt2'' = Some cdelt2"
    and "ac_header self ''crpix1'' = Some crpix1" and "ac_header self ''crpix2'' = Some crpix2"
    and "cdelt1 \<noteq> 0" and "cdelt2 \<noteq> 0"
    and "ac_cmap self \<in> set registry"
    and "fig0 = \<lparr>im_data = ac_cube self ! 0, im_origin = ''lower'', im_aspect = ''equal'',
                 im_cmap = ac_cmap self,
                 im_extent = [(crpix1 - 1) * \<bar>cdelt1\<bar>, - ((crpix1 - 1) * \<bar>cdelt1\<bar>),
                              - ((crpix2 - 1) * cdelt2), (crpix2 - 1) * cdelt2],
                 im_clim = (None, None),
                 ax_title = ac_title self, ax_title_pad = Some (ac_title_pad self),
                 ax_xlabel = ac_xlabel self, ax_ylabel = ac_ylabel self,
                 fig_colorbar = Some \<lparr>cb_label = ac_cblabel self, cb_location = ''right'',
                                      cb_size = ''5%'', cb_pad = 5 / 100, cb_extend = ''both'',
                                      cb_nbins = Some 3\<rparr>\<rparr>"
  shows "create_animation registry self output_video fps interval repeat =
     Inr \<lparr>v_path = output_video, v_first = fig0,
          v_frames = map (\<lambda>i. (i, fig0\<lparr>ax_title := ''Faraday Depth Spectrum at ''
                                             @ format_f 4 (ac_cube_axis self ! i) @ '' rad/m^2'',
                                         ax_title_pad := None,
                                         im_data := ac_cube self ! i,
                                         im_clim := (ac_vmin self, ac_vmax self)\<rparr>))
                       [0..<length (ac_cube self)]\<rparr>"
proof -
  from assms(1) have nz: "0 < length (ac_cube self)" by simp
  have idx: "\<forall>i\<in>set [0..<length (ac_cube self)].
      i < length (ac_cube self) \<and> i < length (ac_cube_axis self)"
    using assms(2) by auto
  show ?thesis
    unfolding create_animation_def Let_def FuncAnimation_save_def
      config_axes_degrees [OF assms(3-8)] draw_frames_animate [OF idx]
    using nz
    by (simp add: getidx_def bindE_def imshow_def ColorBarManager_init_def create_colorbar_def
        assms(9,10))
qed

lemma header_main_keys:
  "header_main ''cdelt1'' = Some (1 / 2)" "header_main ''cdelt2'' = Some (1 / 2)"
  "header_main ''crpix1'' = Some 50" "header_main ''crpix2'' = Some 50"
  by (simp_all add: header_main_def)




lemma create_animation_empty:
  "ac_cube self = [] \<Longrightarrow> create_animation registry self output_video fps interval repeat = Inl IndexError"
  by (simp add: create_animation_def getidx_def bindE_def)

lemma init_empty:
  "vmin = None \<or> vmax = None \<Longrightarrow>
   AnimationCreator_init header [] cube_axis xlabel ylabel cblabel title cmap title_pad vmin vmax
     = Inl ValueError"
  by (auto simp: AnimationCreator_init_def amax_axis0_def reduce_axis0_def bindE_def)

lemma init_supplied:
  "AnimationCreator_init header cube cube_axis xlabel ylabel cblabel title cmap title_pad (Some lo) (Some hi)
     = Inr \<lparr>ac_header = header, ac_cube = cube, ac_cube_axis = cube_axis,
            ac_xlabel = xlabel, ac_ylabel = ylabel, ac_cblabel = cblabel, ac_title = title,
            ac_cmap = (case cmap of None \<Rightarrow> ''Spectral'' | Some c \<Rightarrow> c),
            ac_title_pad = title_pad, ac_vmin = Some lo, ac_vmax = Some hi\<rparr>"
  by (simp add: AnimationCreator_init_def)


lemma creator_zeros_fields:
  "ac_cube creator_zeros = cube_zeros" "ac_cube_axis creator_zeros = [Num 0]"
  "ac_header creator_zeros = header_main" "ac_cmap creator_zeros = ''plasma''"
  by (simp_all add: creator_zeros_def)


lemma create_animation_zeros:
  "\<exists>v. create_animation registry_demo creator_zeros ''dynamic_images.mp4'' 30 50 False = Inr v
     \<and> im_extent (v_first v) = [49 / 2, - (49 / 2), - (49 / 2), 49 / 2]
     \<and> im_data (v_first v) = \<lparr>shape = (50, 50), flat = replicate 2500 0\<rparr>"
proof -
  have h: "ac_cube creator_zeros \<noteq> []"
    "length (ac_cube creator_zeros) \<le> length (ac_cube_axis creator_zeros)"
    "ac_cmap creator_zeros \<in> set registry_demo"
    by (simp_all add: creator_zeros_fields cube_zeros_def registry_demo_def)
  have nz: "(1 / 2 :: real) \<noteq> 0" by simp
  note res = create_animation_result [OF h(1,2)
      header_main_keys [folded creator_zeros_fields(3)] nz nz h(3) refl,
      of "''dynamic_images.mp4''" 30 50 False]
  show ?thesis
    unfolding res by (intro exI conjI, rule refl) (simp_all add: creator_zeros_fields cube_zeros_def)
qed

text \<open>
  Claim C1, amended. For the header \<open>{cdelt1: 0.5, cdelt2: 0.5, crpix1: 50, crpix2: 50}\<close>
  and a 50 by 50 frame, \<open>config_axes\<close> yields \<open>x1 = y1 = 24.5\<close> and two sequences of
  step \<open>0.5\<close> (\<open>dx = dy = 0.5\<close>), and the extent passed to the initial \<open>imshow\<close> call is
  \<open>[x1, -x1, -y1, y1] = [24.5, -24.5, -24.5, 24.5]\<close>.
\<close>

theorem header_main_extent:
  "config_axes (DataConfig_init (ac_cube creator_zeros ! 0) header_main None)
     = Inr (map (\<lambda>i. 49 / 2 + real i * (- (1 / 2))) [0..<99],
            map (\<lambda>i. - (49 / 2) + real i * (1 / 2)) [0..<99], 49 / 2, 49 / 2)
   \<and> \<not> isl (create_animation registry_demo creator_zeros ''dynamic_images.mp4'' 30 50 False)
   \<and> im_data (v_first (projr (create_animation registry_demo creator_zeros ''dynamic_images.mp4'' 30 50 False)))
     = \<lparr>shape = (50, 50), flat = replicate 2500 0\<rparr>
   \<and> im_extent (v_first (projr (create_animation registry_demo creator_zeros ''dynamic_images.mp4'' 30 50 False)))
     = [49 / 2, - (49 / 2), - (49 / 2), 49 / 2]"
proof -
  have nz: "(1 / 2 :: real) \<noteq> 0" by simp
  have ax: "config_axes (DataConfig_init (ac_cube creator_zeros ! 0) header_main None)
     = Inr (map (\<lambda>i. 49 / 2 + real i * (- (1 / 2))) [0..<99],
            map (\<lambda>i. - (49 / 2) + real i * (1 / 2)) [0..<99], 49 / 2, 49 / 2)"
    unfolding config_axes_degrees [OF header_main_keys nz nz] by simp
  from create_animation_zeros obtain v where
    "create_animation registry_demo creator_zeros ''dynamic_images.mp4'' 30 50 False = Inr v"
    "im_extent (v_first v) = [49 / 2, - (49 / 2), - (49 / 2), 49 / 2]"
    "im_data (v_first v) = \<lparr>shape = (50, 50), flat = replicate 2500 0\<rparr>"
    by blast
  with ax show ?thesis by simp
qed

text \<open>The extent is not in the order \<open>[-x1, x1, -y1, y1]\<close> the claim states.\<close>

theorem extent_order_counterexample:
  "im_extent (v_first (projr (create_animation registry_demo creator_zeros ''dynamic_images.mp4'' 30 50 False)))
     \<noteq> [- (49 / 2), 49 / 2, - (49 / 2), 49 / 2]"
proof -
  from create_animation_zeros obtain v where
    "create_animation registry_demo creator_zeros ''dynamic_images.mp4'' 30 50 False = Inr v"
    "im_extent (v_first v) = [49 / 2, - (49 / 2), - (49 / 2), 49 / 2]"
    by blast
  then show ?thesis by simp
qed

section \<open>Properties: the empty cube, the colour map, the units\<close>

text \<open>
  Claim C6, amended. An empty cube is not validated, and it never reaches the encoder:
  with a bound missing \<open>__init__\<close> raises \<open>ValueError\<close> from the reduction over the
  cube, and on a creator whose cube is empty \<open>create_animation\<close> raises \<open>IndexError\<close>
  at \<open>cube[0]\<close>, before any frame is drawn.
\<close>

theorem empty_cube_raises:
  "(vmin = None \<or> vmax = None \<longrightarrow>
      AnimationCreator_init header [] cube_axis xlabel ylabel cblabel title cmap title_pad vmin vmax
        = Inl ValueError)
   \<and> (ac_cube self = [] \<longrightarrow>
      create_animation registry self output_video fps interval repeat = Inl IndexError)"
proof (intro conjI impI)
  assume "vmin = None \<or> vmax = None"
  then show "AnimationCreator_init header [] cube_axis xlabel ylabel cblabel title cmap title_pad vmin vmax
        = Inl ValueError"
    by (rule init_empty)
next
  assume "ac_cube self = []"
  then show "create_animation registry self output_video fps interval repeat = Inl IndexError"
    by (rule create_animation_empty)
qed

text \<open>
  With \<open>vmin\<close> missing on the empty cube, and on the creator built from the empty cube
  with both bounds.
\<close>

theorem empty_cube_raises_witness:
  "AnimationCreator_init header_main [] [] ''X-axis'' ''Y-axis'' ''Color Bar'' ''Sample Animation''
       (Some ''plasma'') 0 None (Some 1) = Inl ValueError
   \<and> create_animation registry_demo creator_empty ''dynamic_images.mp4'' 30 50 False = Inl IndexError"
  using empty_cube_raises [of None "Some 1" header_main "[]" "''X-axis''" "''Y-axis''" "''Color Bar''"
      "''Sample Animation''" "Some ''plasma''" 0 creator_empty registry_demo
      "''dynamic_images.mp4''" 30 50 False]
  by (simp add: creator_empty_def)

text \<open>
  The claim as stated has the empty sequence of frames handed to the encoder. With both
  bounds passed \<open>__init__\<close> returns the creator, and \<open>create_animation\<close> raises on it.
\<close>

theorem empty_cube_counterexample:
  "AnimationCreator_init header_main [] [] ''X-axis'' ''Y-axis'' ''Color Bar'' ''Sample Animation''
       (Some ''plasma'') 0 (Some 0) (Some 1) = Inr creator_empty
   \<and> create_animation registry_demo creator_empty ''dynamic_images.mp4'' 30 50 False
       = Inl IndexError"
  by (simp add: init_supplied creator_empty_def create_animation_empty)









end
